theory Spec2Isabelle
  imports Complex_Main "HOL-Library.Sublist"
begin

section \<open>JavaScript values\<close>

text \<open>
  The components are TypeScript. A property read on \<open>undefined\<close> or \<open>null\<close> raises a
  \<open>TypeError\<close>; the model returns it as a value.
\<close>

datatype error = TypeError

text \<open>A string is falsy exactly when it is empty; \<open>undefined\<close> and \<open>null\<close> are falsy.\<close>

definition truthy_string :: "string \<Rightarrow> bool" where
  "truthy_string s = (s \<noteq> [])"

definition truthy_opt_string :: "string option \<Rightarrow> bool" where
  "truthy_opt_string v = (case v of None \<Rightarrow> False | Some s \<Rightarrow> truthy_string s)"

definition truthy_opt_bool :: "bool option \<Rightarrow> bool" where
  "truthy_opt_bool v = (case v of None \<Rightarrow> False | Some b \<Rightarrow> b)"

section \<open>Sidebar state\<close>

text \<open>
  Modelled from the spec: the \<open>useSidebar\<close> hook (its source file is not part of the
  excerpt). The collapse-state map is a mapping from section identifier to boolean
  expanded/collapsed; \<open>setCollapsedSidebarItem\<close> stores a value for one section and
  toggling a node flips its entry. The state of a section is the boolean the mapping
  gives for its identifier.
\<close>

type_synonym collapsed_items = "string \<Rightarrow> bool"

definition all_collapsed :: collapsed_items where
  "all_collapsed = (\<lambda>_. False)"

definition setCollapsedSidebarItem :: "collapsed_items \<Rightarrow> string \<Rightarrow> bool \<Rightarrow> collapsed_items" where
  "setCollapsedSidebarItem items key v = items(key := v)"

definition toggleCollapsedSidebarItem :: "collapsed_items \<Rightarrow> string \<Rightarrow> collapsed_items" where
  "toggleCollapsedSidebarItem items key = items(key := \<not> items key)"

section \<open>State of the reference layout\<close>

text \<open>
  \<open>elementHeight\<close> holds a CSS length: it starts as \<open>'100dvh'\<close> and the resize observer
  stores \<open>height + 'px'\<close>. The model keeps the number and the unit apart.
\<close>

datatype css_length = Dvh real | Px real

text \<open>
  The mutable state the script of the layout component reads and writes:
  the refs \<open>hash\<close> (from \<open>useNavState\<close>), \<open>collapsedSidebarItems\<close> (from \<open>useSidebar\<close>)
  and \<open>elementHeight\<close>; the scroll offset (top, left) of the element \<open>#tippy\<close>, \<open>None\<close>
  when the document has no such element; the number of listeners registered on
  \<open>downloadSpecBus\<close>; \<open>window.location.pathname\<close> and \<open>window.location.search\<close>; and the
  URLs passed to \<open>window.history.replaceState\<close>, most recent first.
\<close>

record layout_state =
  hash :: string
  collapsedSidebarItems :: collapsed_items
  elementHeight :: css_length
  tippy_scroll :: "(real \<times> real) option"
  downloadSpec_listeners :: nat
  location_pathname :: string
  location_search :: string
  history_replaced :: "string list"

text \<open>
  A concrete state for the examples below: a page at path \<open>/\<close> with no query and no
  \<open>#tippy\<close> element, right after \<open>script setup\<close> (\<open>elementHeight\<close> is \<open>'100dvh'\<close>), with
  nothing expanded yet and the given fragment.
\<close>

definition setup_state :: "string \<Rightarrow> layout_state" where
  "setup_state h =
     \<lparr> hash = h, collapsedSidebarItems = all_collapsed, elementHeight = Dvh 100,
       tippy_scroll = None, downloadSpec_listeners = 0,
       location_pathname = ''/'', location_search = [], history_replaced = [] \<rparr>"

section \<open>The scroll handler\<close>

text \<open>
  The function wrapped by \<open>useDebounceFn\<close>. The debounce decides which scroll events
  reach it; the function below is what runs for an event that does.

  \<^verbatim>\<open>
  const scrollDistance = value.target.scrollTop ?? 0
  if (scrollDistance < 50) {
    window.history.replaceState({}, '', window.location.pathname + window.location.search)
    hash.value = ''
  }
  \<close>
\<close>

record scroll_target =
  scrollTop :: "real option"

record scroll_event =
  target :: "scroll_target option"

definition scroll_at :: "real \<Rightarrow> scroll_event" where
  "scroll_at d = \<lparr> target = Some \<lparr> scrollTop = Some d \<rparr> \<rparr>"

definition nullish_or :: "'a option \<Rightarrow> 'a \<Rightarrow> 'a" where
  "nullish_or v d = (case v of None \<Rightarrow> d | Some x \<Rightarrow> x)"

definition clear_hash :: "layout_state \<Rightarrow> layout_state" where
  "clear_hash s =
     s\<lparr> history_replaced := (location_pathname s @ location_search s) # history_replaced s,
        hash := [] \<rparr>"

definition debouncedScroll :: "scroll_event \<Rightarrow> layout_state \<Rightarrow> error + layout_state" where
  "debouncedScroll v s =
     (case target v of
        None \<Rightarrow> Inl TypeError
      | Some t \<Rightarrow>
          (let scrollDistance = nullish_or (scrollTop t) 0
           in if scrollDistance < 50 then Inr (clear_hash s) else Inr s))"

section \<open>Mounting the layout\<close>

text \<open>
  The navigation-state collaborator (\<open>useNavState\<close>) resolves a fragment
  (\<open>getSectionId\<close>) or a tag object (\<open>getTagId\<close>) to a section identifier. Its source is
  not part of the excerpt, so both functions are parameters of the model;
  \<open>getSectionId\<close> may answer \<open>null\<close>, as the type \<open>string | null\<close> of \<open>sectionId\<close> allows.
\<close>

record 'tag parsed_spec =
  tags :: "'tag list option"

text \<open>\<open>props.parsedSpec.tags?.[0]\<close>: undefined when there are no tags or the list is empty.\<close>

definition firstTag_of :: "'tag parsed_spec \<Rightarrow> 'tag option" where
  "firstTag_of parsedSpec =
     (case tags parsedSpec of None \<Rightarrow> None | Some [] \<Rightarrow> None | Some (t # _) \<Rightarrow> Some t)"

text \<open>
  \<^verbatim>\<open>
  onMounted(() => {
    if (!hash.value) {
      document.querySelector('#tippy')?.scrollTo({ top: 0, left: 0 })
    }
    const firstTag = props.parsedSpec.tags?.[0]
    let sectionId: string | null = null
    if (hash.value) sectionId = getSectionId(hash.value)
    else if (firstTag) sectionId = getTagId(firstTag)
    if (sectionId) setCollapsedSidebarItem(sectionId, true)
    downloadSpecBus.on(() => downloadSpecFile(props.rawSpec))
  })
  \<close>
\<close>

definition scroll_tippy_to_top :: "layout_state \<Rightarrow> layout_state" where
  "scroll_tippy_to_top s =
     (case tippy_scroll s of None \<Rightarrow> s | Some _ \<Rightarrow> s\<lparr> tippy_scroll := Some (0, 0) \<rparr>)"

definition expand_section :: "string option \<Rightarrow> layout_state \<Rightarrow> layout_state" where
  "expand_section sectionId s =
     (case sectionId of
        None \<Rightarrow> s
      | Some sid \<Rightarrow>
          if truthy_string sid
          then s\<lparr> collapsedSidebarItems := setCollapsedSidebarItem (collapsedSidebarItems s) sid True \<rparr>
          else s)"

definition onMounted ::
  "(string \<Rightarrow> string option) \<Rightarrow> ('tag \<Rightarrow> string) \<Rightarrow> 'tag parsed_spec \<Rightarrow> layout_state \<Rightarrow> layout_state" where
  "onMounted getSectionId getTagId parsedSpec s =
     (let s1 = (if \<not> truthy_string (hash s) then scroll_tippy_to_top s else s);
          firstTag = firstTag_of parsedSpec;
          sectionId =
            (if truthy_string (hash s1) then getSectionId (hash s1)
             else case firstTag of Some t \<Rightarrow> Some (getTagId t) | None \<Rightarrow> None);
          s2 = expand_section sectionId s1
      in s2\<lparr> downloadSpec_listeners := Suc (downloadSpec_listeners s2) \<rparr>)"

section \<open>Server-side rendering\<close>

text \<open>
  The hand-off structure is \<open>ctx.scalarState\<close>, a dictionary from state keys to values;
  \<open>useSSRContext\<close> answers the context object or \<open>undefined\<close>. The result of
  \<open>defaultStateFactory()\<close> (an external package) is a parameter. The hand-off receives the
  collapse-state map as it is when the pass writes it.

  \<^verbatim>\<open>
  onServerPrefetch(() => {
    const firstTag = props.parsedSpec.tags?.[0]
    if (firstTag) setCollapsedSidebarItem(getTagId(firstTag), true)
    const ctx = useSSRContext<SSRState>()
    if (!ctx) return
    ctx.scalarState ||= defaultStateFactory()
    ctx.scalarState['useSidebarContent-collapsedSidebarItems'] = collapsedSidebarItems
  })
  \<close>
\<close>

datatype ssr_value = SidebarItems collapsed_items | OtherState string

type_synonym scalar_state = "string \<rightharpoonup> ssr_value"

record ssr_context =
  scalarState :: "scalar_state option"

definition collapsed_key :: string where
  "collapsed_key = ''useSidebarContent-collapsedSidebarItems''"

definition onServerPrefetch ::
  "('tag \<Rightarrow> string) \<Rightarrow> scalar_state \<Rightarrow> 'tag parsed_spec \<Rightarrow> ssr_context option \<Rightarrow> layout_state
     \<Rightarrow> layout_state \<times> ssr_context option" where
  "onServerPrefetch getTagId defaultState parsedSpec ctx s =
     (let s1 =
            (case firstTag_of parsedSpec of
               None \<Rightarrow> s
             | Some t \<Rightarrow>
                 s\<lparr> collapsedSidebarItems :=
                      setCollapsedSidebarItem (collapsedSidebarItems s) (getTagId t) True \<rparr>)
      in case ctx of
           None \<Rightarrow> (s1, None)
         | Some c \<Rightarrow>
             (let st = (case scalarState c of None \<Rightarrow> defaultState | Some st \<Rightarrow> st)
              in (s1,
                  Some (c\<lparr> scalarState :=
                            Some (st(collapsed_key \<mapsto> SidebarItems (collapsedSidebarItems s1))) \<rparr>))))"

section \<open>The resize observer\<close>

text \<open>
  \<^verbatim>\<open>
  useResizeObserver(documentEl, (entries) => {
    elementHeight.value = entries[0].contentRect.height + 'px'
  })
  \<close>
  \<open>entries[0]\<close> of an empty array is \<open>undefined\<close>, and reading \<open>contentRect\<close> of it raises.
\<close>

record content_rect =
  height :: real

record resize_entry =
  contentRect :: content_rect

definition resizeObserver_callback :: "resize_entry list \<Rightarrow> layout_state \<Rightarrow> error + layout_state" where
  "resizeObserver_callback entries s =
     (case entries of
        [] \<Rightarrow> Inl TypeError
      | e # _ \<Rightarrow> Inr (s\<lparr> elementHeight := Px (height (contentRect e)) \<rparr>))"

section \<open>Regions of the layout template\<close>

text \<open>
  The template of the layout renders, inside the root element and in this order: the
  header; the navigation (\<open>v-if="configuration.showSidebar"\<close>); the editor (always in
  the tree, \<open>v-show\<close> only hides it); under \<open>v-if="showRenderedContent"\<close> the rendered
  reference and, \<open>v-if="$slots.footer"\<close>, the footer; the API client overlay.
\<close>

record configuration =
  isEditable :: "bool option"
  showSidebar :: "bool option"

datatype slot_name =
  SlotHeader | SlotSidebarStart | SlotSidebarEnd | SlotEditor | SlotContentStart
  | SlotContentEnd | SlotFooter

datatype region =
  HeaderRegion | NavigationRegion | EditorRegion | RenderedRegion | FooterRegion
  | ApiClientModalRegion

text \<open>\<open>useMediaQuery('(min-width: 1150px)')\<close>, for a viewport width in CSS pixels.\<close>

definition isLargeScreen :: "real \<Rightarrow> bool" where
  "isLargeScreen viewport_width = (1150 \<le> viewport_width)"

definition showRenderedContent :: "real \<Rightarrow> configuration \<Rightarrow> bool" where
  "showRenderedContent viewport_width config =
     (isLargeScreen viewport_width \<or> \<not> truthy_opt_bool (isEditable config))"

definition layout_regions :: "real \<Rightarrow> configuration \<Rightarrow> slot_name set \<Rightarrow> region list" where
  "layout_regions viewport_width config slots =
     [HeaderRegion]
     @ (if truthy_opt_bool (showSidebar config) then [NavigationRegion] else [])
     @ [EditorRegion]
     @ (if showRenderedContent viewport_width config
        then [RenderedRegion] @ (if SlotFooter \<in> slots then [FooterRegion] else [])
        else [])
     @ [ApiClientModalRegion]"

section \<open>Rendered trees\<close>

text \<open>A rendered element with its tag, its classes and its children, or a text node.\<close>

datatype vnode = Element string "string list" "vnode list" | Text string

fun find_class :: "string \<Rightarrow> vnode \<Rightarrow> vnode option"
  and find_class_in :: "string \<Rightarrow> vnode list \<Rightarrow> vnode option" where
  "find_class c (Text s) = None"
| "find_class c (Element t cs ks) =
     (if c \<in> set cs then Some (Element t cs ks) else find_class_in c ks)"
| "find_class_in c [] = None"
| "find_class_in c (k # ks) =
     (case find_class c k of Some v \<Rightarrow> Some v | None \<Rightarrow> find_class_in c ks)"

fun children_of :: "vnode \<Rightarrow> vnode list" where
  "children_of (Element t cs ks) = ks"
| "children_of (Text s) = []"

fun join_classes :: "string list \<Rightarrow> string" where
  "join_classes [] = []"
| "join_classes [c] = c"
| "join_classes (c # d # cs) = c @ '' '' @ join_classes (d # cs)"

definition class_attr :: "string list \<Rightarrow> string" where
  "class_attr cs = (if cs = [] then [] else '' class='' @ [CHR 0x22] @ join_classes cs @ [CHR 0x22])"

fun outerHTML :: "vnode \<Rightarrow> string" where
  "outerHTML (Text s) = s"
| "outerHTML (Element t cs ks) =
     ''<'' @ t @ class_attr cs @ ''>'' @ concat (map outerHTML ks) @ ''</'' @ t @ ''>''"

section \<open>The request-history list\<close>

text \<open>
  The template of \<open>RequestHistory.vue\<close>. The rows are
  \<open>RequestHistoryItem v-for="history in requestHistoryOrder"\<close>; the item component is a
  parameter of the template.
\<close>

definition navtable_cell :: "string \<Rightarrow> vnode list \<Rightarrow> vnode" where
  "navtable_cell width_class ks = Element ''div'' [width_class] ks"

definition navtable_label :: "string \<Rightarrow> vnode" where
  "navtable_label s = Element ''label'' [] [Text s]"

definition RequestHistory_template :: "('h \<Rightarrow> vnode) \<Rightarrow> 'h list \<Rightarrow> vnode" where
  "RequestHistory_template RequestHistoryItem requestHistoryOrder =
     Element ''div'' [''navigation-content-item'']
       [Element ''div'' [''navtable'']
          [Element ''div'' [''navtable-table'']
             [Element ''div'' [''navtable-item'', ''navtable-item__top'']
                [navtable_cell ''navtable-item-40'' [navtable_label ''Request''],
                 navtable_cell ''navtable-item-40'' [navtable_label ''Response''],
                 navtable_cell ''navtable-item-20'' [navtable_label ''TIME'']],
              Element ''div'' [''navtable-radios''] (map RequestHistoryItem requestHistoryOrder),
              Element ''div'' [''navtable-mock'']
                [Element ''div'' [''navtable-item'']
                   [navtable_cell ''navtable-item-40'' [],
                    navtable_cell ''navtable-item-40'' [],
                    navtable_cell ''navtable-item-20'' []]]]]]"

definition history_rows :: "vnode \<Rightarrow> vnode list option" where
  "history_rows v = map_option children_of (find_class ''navtable-radios'' v)"

text \<open>
  Modelled from the spec: the \<open>RequestHistoryItem\<close> component and the entries of the request
  store (neither source file is part of the excerpt). A history entry is an identifier,
  a request (method, target) and, once it has arrived, a response summary (status,
  timing). The item shows the stored fields; absence of a response yields an empty cell.
  The class names are the ones the style sheet of \<open>RequestHistory.vue\<close> declares.
\<close>

record response_summary =
  status :: string
  elapsed :: string

record history_entry =
  entry_id :: string
  request_method :: string
  request_target :: string
  response :: "response_summary option"

definition RequestHistoryItem :: "history_entry \<Rightarrow> vnode" where
  "RequestHistoryItem e =
     Element ''div'' [''navtable-item'']
       [Element ''div'' [''navtable-item-40'', ''navtable-item-request'']
          [Element ''span'' [] [Element ''em'' [] [Text (request_method e)], Text (request_target e)]],
        Element ''div'' [''navtable-item-40'', ''navtable-item-response'']
          (case response e of None \<Rightarrow> [] | Some r \<Rightarrow> [Element ''span'' [] [Text (status r)]]),
        Element ''div'' [''navtable-item-20'']
          (case response e of None \<Rightarrow> [] | Some r \<Rightarrow> [Element ''span'' [] [Text (elapsed r)]])]"

section \<open>The embedded client widget\<close>

text \<open>
  Modelled from the spec: \<open>createApiClientWeb\<close> (only its test is part of the excerpt).
  Mounting the widget into a container puts the widget's root element, marked
  \<open>scalar-app\<close>, into the container's rendered output. What the root element holds is a
  parameter.
\<close>

record dom_element =
  tagName :: string
  classList :: "string list"
  childNodes :: "vnode list"

record client_config =
  proxyUrl :: "string option"

definition createElement :: "string \<Rightarrow> dom_element" where
  "createElement t = \<lparr> tagName = t, classList = [], childNodes = [] \<rparr>"

definition innerHTML :: "dom_element \<Rightarrow> string" where
  "innerHTML el = concat (map outerHTML (childNodes el))"

definition createApiClientWeb :: "vnode list \<Rightarrow> dom_element \<Rightarrow> client_config \<Rightarrow> dom_element" where
  "createApiClientWeb app el config =
     el\<lparr> childNodes := childNodes el @ [Element ''div'' [''scalar-app''] app] \<rparr>"

section \<open>Initial expansion on mount\<close>

text \<open>
  C1. When the fragment is non-empty and the navigation state resolves it to a section
  identifier, the collapse-state map after \<open>onMounted\<close> marks that section as expanded,
  and the entry of every other section is what it was before the mount: the mount logic
  opens no other section.
\<close>

theorem mount_expands_fragment_section:
  "hash s \<noteq> [] \<Longrightarrow> getSectionId (hash s) = Some sid \<Longrightarrow> sid \<noteq> [] \<Longrightarrow>
     collapsedSidebarItems (onMounted getSectionId getTagId parsedSpec s) sid \<and>
     (\<forall>k. k \<noteq> sid \<longrightarrow>
        collapsedSidebarItems (onMounted getSectionId getTagId parsedSpec s) k
          = collapsedSidebarItems s k)"
  by (simp add: onMounted_def expand_section_def truthy_string_def setCollapsedSidebarItem_def Let_def)

theorem mount_expands_fragment_section_witness:
  "hash (setup_state ''tag/pets'') \<noteq> [] \<and>
   Some (hash (setup_state ''tag/pets'')) = Some ''tag/pets'' \<and>
   ''tag/pets'' \<noteq> [] \<and>
   collapsedSidebarItems
     (onMounted Some id \<lparr> tags = Some [''tag/store'', ''tag/pets''] \<rparr> (setup_state ''tag/pets''))
     ''tag/pets'' \<and>
   \<not> collapsedSidebarItems
     (onMounted Some id \<lparr> tags = Some [''tag/store'', ''tag/pets''] \<rparr> (setup_state ''tag/pets''))
     ''tag/store''"
  using mount_expands_fragment_section
    [of "setup_state ''tag/pets''" Some "''tag/pets''" id
        "\<lparr> tags = Some [''tag/store'', ''tag/pets''] \<rparr>"]
  by (simp add: setup_state_def all_collapsed_def)

text \<open>
  C2. When the fragment is empty and the parsed document has at least one top-level tag,
  the collapse-state entry of the first declared tag's section identifier is expanded
  after \<open>onMounted\<close>, and no other entry changes. The identifier \<open>getTagId\<close> gives is taken to
  be a non-empty string; an empty string is falsy, and the mount skips it.
\<close>

theorem mount_expands_first_tag:
  "hash s = [] \<Longrightarrow> tags parsedSpec = Some (t # ts) \<Longrightarrow> getTagId t \<noteq> [] \<Longrightarrow>
     collapsedSidebarItems (onMounted getSectionId getTagId parsedSpec s) (getTagId t) \<and>
     collapsedSidebarItems (onMounted getSectionId getTagId parsedSpec s)
       = (collapsedSidebarItems s)(getTagId t := True)"
  by (simp add: onMounted_def expand_section_def truthy_string_def setCollapsedSidebarItem_def
      firstTag_of_def scroll_tippy_to_top_def Let_def split: option.splits)

theorem mount_expands_first_tag_witness:
  "hash (setup_state []) = [] \<and>
   tags \<lparr> tags = Some [''tag/store'', ''tag/pets''] \<rparr> = Some (''tag/store'' # [''tag/pets'']) \<and>
   id ''tag/store'' \<noteq> [] \<and>
   collapsedSidebarItems
     (onMounted Some id \<lparr> tags = Some [''tag/store'', ''tag/pets''] \<rparr> (setup_state []))
     ''tag/store'' \<and>
   \<not> collapsedSidebarItems
     (onMounted Some id \<lparr> tags = Some [''tag/store'', ''tag/pets''] \<rparr> (setup_state []))
     ''tag/pets''"
  using mount_expands_first_tag
    [of "setup_state []" "\<lparr> tags = Some [''tag/store'', ''tag/pets''] \<rparr>" "''tag/store''"
        "[''tag/pets'']" id Some]
  by (simp add: setup_state_def all_collapsed_def)

section \<open>Properties of the scroll handler\<close>

text \<open>
  C3. For a scroll event that reaches the handler: when the scroll offset of its target is
  strictly under 50 the handler replaces the URL by path and query alone and sets the
  fragment to the empty string; when the offset is 200 the state, and with it the
  fragment, is left as it was.
\<close>

theorem scroll_clears_under_50:
  "(d < 50 \<longrightarrow>
      debouncedScroll (scroll_at d) s = Inr (clear_hash s) \<and> hash (clear_hash s) = [] \<and>
      hd (history_replaced (clear_hash s)) = location_pathname s @ location_search s) \<and>
   debouncedScroll (scroll_at 200) s = Inr s"
  by (simp add: debouncedScroll_def scroll_at_def nullish_or_def clear_hash_def)

theorem scroll_clears_under_50_witness:
  "(49.5::real) < 50 \<and>
   debouncedScroll (scroll_at 49.5) (setup_state ''tag/pets'')
     = Inr (clear_hash (setup_state ''tag/pets'')) \<and>
   hash (clear_hash (setup_state ''tag/pets'')) = [] \<and>
   hash (setup_state ''tag/pets'') = ''tag/pets'' \<and>
   debouncedScroll (scroll_at 200) (setup_state ''tag/pets'') = Inr (setup_state ''tag/pets'')"
  using scroll_clears_under_50 [of "49.5" "setup_state ''tag/pets''"]
  by (simp add: setup_state_def)

section \<open>Server-side rendering against the client mount\<close>

text \<open>
  The server pass never reads the fragment. With the fragment \<open>tag/pets\<close> and the tags
  \<open>tag/store\<close>, \<open>tag/pets\<close>, the server pass expands \<open>tag/store\<close> and leaves \<open>tag/pets\<close>
  collapsed, while the client mount expands \<open>tag/pets\<close> and leaves \<open>tag/store\<close> collapsed.
\<close>

theorem ssr_differs_from_mount_counterexample:
  "collapsedSidebarItems
     (fst (onServerPrefetch id Map.empty \<lparr> tags = Some [''tag/store'', ''tag/pets''] \<rparr> None
             (setup_state ''tag/pets''))) ''tag/store'' \<and>
   \<not> collapsedSidebarItems
     (fst (onServerPrefetch id Map.empty \<lparr> tags = Some [''tag/store'', ''tag/pets''] \<rparr> None
             (setup_state ''tag/pets''))) ''tag/pets'' \<and>
   \<not> collapsedSidebarItems
     (onMounted Some id \<lparr> tags = Some [''tag/store'', ''tag/pets''] \<rparr> (setup_state ''tag/pets''))
     ''tag/store'' \<and>
   collapsedSidebarItems
     (onMounted Some id \<lparr> tags = Some [''tag/store'', ''tag/pets''] \<rparr> (setup_state ''tag/pets''))
     ''tag/pets''"
  by (simp add: onServerPrefetch_def onMounted_def expand_section_def truthy_string_def
      setCollapsedSidebarItem_def firstTag_of_def setup_state_def all_collapsed_def Let_def)

text \<open>
  C4, as amended. The server pass expands the section of the first top-level tag, whatever
  the fragment is. When the fragment is empty (and the tag's identifier is a non-empty
  string) this is the collapse-state map the client mount computes, and when an SSR
  context object is present the pass stores that map in the hand-off structure under the
  key \<open>useSidebarContent-collapsedSidebarItems\<close>.
\<close>

theorem ssr_matches_mount_without_fragment:
  "collapsedSidebarItems (fst (onServerPrefetch getTagId defaultState parsedSpec ctx s))
     = (case firstTag_of parsedSpec of
          None \<Rightarrow> collapsedSidebarItems s
        | Some t \<Rightarrow> (collapsedSidebarItems s)(getTagId t := True)) \<and>
   (hash s = [] \<and> (\<forall>t. firstTag_of parsedSpec = Some t \<longrightarrow> getTagId t \<noteq> []) \<longrightarrow>
      collapsedSidebarItems (fst (onServerPrefetch getTagId defaultState parsedSpec ctx s))
        = collapsedSidebarItems (onMounted getSectionId getTagId parsedSpec s)) \<and>
   (\<forall>c. ctx = Some c \<longrightarrow>
      (\<exists>c' st. snd (onServerPrefetch getTagId defaultState parsedSpec ctx s) = Some c' \<and>
         scalarState c' = Some st \<and>
         st collapsed_key
           = Some (SidebarItems
                (collapsedSidebarItems
                   (fst (onServerPrefetch getTagId defaultState parsedSpec ctx s))))))"
  by (cases "firstTag_of parsedSpec"; cases ctx)
     (simp_all add: onServerPrefetch_def onMounted_def expand_section_def truthy_string_def
      setCollapsedSidebarItem_def scroll_tippy_to_top_def Let_def split: option.splits)

theorem ssr_matches_mount_without_fragment_witness:
  "hash (setup_state []) = [] \<and>
   firstTag_of \<lparr> tags = Some [''tag/store'', ''tag/pets''] \<rparr> = Some ''tag/store'' \<and>
   id ''tag/store'' \<noteq> [] \<and>
   collapsedSidebarItems
     (fst (onServerPrefetch id Map.empty \<lparr> tags = Some [''tag/store'', ''tag/pets''] \<rparr>
             (Some \<lparr> scalarState = None \<rparr>) (setup_state [])))
     = collapsedSidebarItems
         (onMounted Some id \<lparr> tags = Some [''tag/store'', ''tag/pets''] \<rparr> (setup_state [])) \<and>
   collapsedSidebarItems
     (fst (onServerPrefetch id Map.empty \<lparr> tags = Some [''tag/store'', ''tag/pets''] \<rparr>
             (Some \<lparr> scalarState = None \<rparr>) (setup_state []))) ''tag/store'' \<and>
   (\<exists>c' st.
      snd (onServerPrefetch id Map.empty \<lparr> tags = Some [''tag/store'', ''tag/pets''] \<rparr>
             (Some \<lparr> scalarState = None \<rparr>) (setup_state [])) = Some c' \<and>
      scalarState c' = Some st \<and>
      st collapsed_key
        = Some (SidebarItems
             (collapsedSidebarItems
                (fst (onServerPrefetch id Map.empty \<lparr> tags = Some [''tag/store'', ''tag/pets''] \<rparr>
                        (Some \<lparr> scalarState = None \<rparr>) (setup_state []))))))"
  using ssr_matches_mount_without_fragment
    [of id Map.empty "\<lparr> tags = Some [''tag/store'', ''tag/pets''] \<rparr>"
        "Some \<lparr> scalarState = None \<rparr>" "setup_state []" Some]
  by (auto simp add: firstTag_of_def setup_state_def)

section \<open>The two guards\<close>

text \<open>
  The resize-observer callback has no guard: on an empty list of entries it raises a
  \<open>TypeError\<close> instead of doing nothing.
\<close>

theorem resize_empty_entries_counterexample:
  "resizeObserver_callback [] (setup_state []) = Inl TypeError"
  by (simp add: resizeObserver_callback_def)

text \<open>
  C5, as amended. The server-prefetch hand-off is a silent no-op when the SSR context
  object is absent: no context comes into being, nothing is raised, and the state is the
  one with the first tag expanded. The resize-observer callback is not guarded: on the
  non-empty list of entries the observer delivers it stores the height of the first
  entry, in pixels.
\<close>

theorem ssr_handoff_absent_context:
  "(entries \<noteq> [] \<longrightarrow>
      resizeObserver_callback entries s
        = Inr (s\<lparr> elementHeight := Px (height (contentRect (hd entries))) \<rparr>)) \<and>
   snd (onServerPrefetch getTagId defaultState parsedSpec None s) = None \<and>
   fst (onServerPrefetch getTagId defaultState parsedSpec None s)
     = (case firstTag_of parsedSpec of
          None \<Rightarrow> s
        | Some t \<Rightarrow> s\<lparr> collapsedSidebarItems := (collapsedSidebarItems s)(getTagId t := True) \<rparr>)"
  by (cases entries)
     (simp_all add: resizeObserver_callback_def onServerPrefetch_def setCollapsedSidebarItem_def
       Let_def split: option.splits)

theorem ssr_handoff_absent_context_witness:
  "[\<lparr> contentRect = \<lparr> height = 640 \<rparr> \<rparr>] \<noteq> [] \<and>
   resizeObserver_callback [\<lparr> contentRect = \<lparr> height = 640 \<rparr> \<rparr>] (setup_state [])
     = Inr ((setup_state [])\<lparr> elementHeight := Px 640 \<rparr>) \<and>
   snd (onServerPrefetch id Map.empty \<lparr> tags = Some [''tag/store''] \<rparr> None (setup_state [])) = None"
  using ssr_handoff_absent_context
    [of "[\<lparr> contentRect = \<lparr> height = 640 \<rparr> \<rparr>]" "setup_state []" id Map.empty
        "\<lparr> tags = Some [''tag/store''] \<rparr>"]
  by simp

section \<open>The request-history list in store order\<close>

lemma find_class_template:
  "find_class ''navtable-radios'' (RequestHistory_template item order)
     = Some (Element ''div'' [''navtable-radios''] (map item order))"
  by (simp add: RequestHistory_template_def navtable_cell_def navtable_label_def)

text \<open>
  C6. For every sequence of history entries the store holds, the rows of the list are one
  item per entry, in the store's order; and the item of an entry that has no response
  has an empty response cell.
\<close>

theorem history_rows_in_store_order:
  "history_rows (RequestHistory_template item order) = Some (map item order) \<and>
   length (map item order) = length order \<and>
   (\<forall>i < length order. map item order ! i = item (order ! i)) \<and>
   (\<forall>e. response e = None \<longrightarrow>
      find_class ''navtable-item-response'' (RequestHistoryItem e)
        = Some (Element ''div'' [''navtable-item-40'', ''navtable-item-response''] []))"
  by (simp add: history_rows_def find_class_template RequestHistoryItem_def)

theorem history_rows_in_store_order_witness:
  "response \<lparr> entry_id = ''2'', request_method = ''POST'', request_target = ''/pets'',
              response = None \<rparr> = None \<and>
   history_rows
     (RequestHistory_template RequestHistoryItem
        [\<lparr> entry_id = ''1'', request_method = ''GET'', request_target = ''/pets'',
            response = Some \<lparr> status = ''200'', elapsed = ''12'' \<rparr> \<rparr>,
         \<lparr> entry_id = ''2'', request_method = ''POST'', request_target = ''/pets'',
            response = None \<rparr>])
     = Some
        [RequestHistoryItem
           \<lparr> entry_id = ''1'', request_method = ''GET'', request_target = ''/pets'',
             response = Some \<lparr> status = ''200'', elapsed = ''12'' \<rparr> \<rparr>,
         RequestHistoryItem
           \<lparr> entry_id = ''2'', request_method = ''POST'', request_target = ''/pets'',
             response = None \<rparr>] \<and>
   find_class ''navtable-item-response''
     (RequestHistoryItem
        \<lparr> entry_id = ''2'', request_method = ''POST'', request_target = ''/pets'',
          response = None \<rparr>)
     = Some (Element ''div'' [''navtable-item-40'', ''navtable-item-response''] [])"
  using history_rows_in_store_order
    [of RequestHistoryItem
        "[\<lparr> entry_id = ''1'', request_method = ''GET'', request_target = ''/pets'',
            response = Some \<lparr> status = ''200'', elapsed = ''12'' \<rparr> \<rparr>,
          \<lparr> entry_id = ''2'', request_method = ''POST'', request_target = ''/pets'',
            response = None \<rparr>]"]
  by simp

section \<open>Toggling a sidebar node\<close>

text \<open>
  C7. For every section identifier and every collapse-state map, toggling the entry of
  the section twice gives the map back.
\<close>

theorem toggle_twice_identity:
  "toggleCollapsedSidebarItem (toggleCollapsedSidebarItem items key) key = items"
  by (simp add: toggleCollapsedSidebarItem_def)

section \<open>Mounting the client widget\<close>

lemma sublist_join_classes: "c \<in> set cs \<Longrightarrow> sublist c (join_classes cs)"
proof (induction cs rule: join_classes.induct)
  case 1
  then show ?case by simp
next
  case (2 d)
  then show ?case by simp
next
  case (3 a b cs)
  show ?case
  proof (cases "c = a")
    case True
    then show ?thesis by simp
  next
    case False
    with 3 have "sublist c (join_classes (b # cs))" by simp
    then obtain ps ss where "join_classes (b # cs) = ps @ c @ ss"
      by (auto simp: sublist_def)
    then have "join_classes (a # b # cs) = (a @ '' '' @ ps) @ c @ ss"
      by simp
    then show ?thesis
      by (metis sublist_appendI)
  qed
qed

lemma sublist_outerHTML_class:
  assumes "c \<in> set cs"
  shows "sublist c (outerHTML (Element t cs ks))"
proof -
  have ne: "cs \<noteq> []" using assms by auto
  have "sublist c (join_classes cs)" using assms by (rule sublist_join_classes)
  then obtain ps ss where j: "join_classes cs = ps @ c @ ss" by (auto simp: sublist_def)
  have "outerHTML (Element t cs ks)
      = (''<'' @ t @ '' class='' @ [CHR 0x22] @ ps) @ c
        @ (ss @ [CHR 0x22] @ ''>'' @ concat (map outerHTML ks) @ ''</'' @ t @ ''>'')"
    using ne by (simp add: class_attr_def j)
  then show ?thesis by (metis sublist_appendI)
qed

text \<open>
  C8. For every empty container, the rendered output of the container does not contain
  the marker \<open>scalar-app\<close> before the widget is mounted on it, and contains it after.
\<close>

theorem mount_adds_root_marker:
  "childNodes el = [] \<Longrightarrow>
     \<not> sublist ''scalar-app'' (innerHTML el) \<and>
     sublist ''scalar-app'' (innerHTML (createApiClientWeb app el config))"
  using sublist_outerHTML_class [of "''scalar-app''" "[''scalar-app'']" "''div''" app]
  by (simp add: innerHTML_def createApiClientWeb_def)

theorem mount_adds_root_marker_witness:
  "childNodes (createElement ''div'') = [] \<and>
   \<not> sublist ''scalar-app'' (innerHTML (createElement ''div'')) \<and>
   sublist ''scalar-app''
     (innerHTML (createApiClientWeb [] (createElement ''div'')
        \<lparr> proxyUrl = Some ''https://proxy.scalar.com'' \<rparr>)) \<and>
   innerHTML (createApiClientWeb [] (createElement ''div'')
        \<lparr> proxyUrl = Some ''https://proxy.scalar.com'' \<rparr>)
     = ''<div class='' @ [CHR 0x22] @ ''scalar-app'' @ [CHR 0x22] @ ''></div>''"
  using mount_adds_root_marker
    [of "createElement ''div''" "[]" "\<lparr> proxyUrl = Some ''https://proxy.scalar.com'' \<rparr>"]
  by (simp add: createElement_def innerHTML_def createApiClientWeb_def class_attr_def)

section \<open>When the rendered reference and the footer show\<close>

text \<open>
  C9. The rendered-content region is in the tree if and only if the viewport is at least
  1150 pixels wide or the configuration is not editable; a supplied footer slot is
  rendered under the same condition, and only then. In particular, on a narrower
  viewport with \<open>isEditable\<close> set, the footer is not rendered, supplied or not.
\<close>

theorem rendered_region_shown_iff:
  "(RenderedRegion \<in> set (layout_regions w config slots)
      \<longleftrightarrow> 1150 \<le> w \<or> isEditable config \<noteq> Some True) \<and>
   (FooterRegion \<in> set (layout_regions w config slots)
      \<longleftrightarrow> SlotFooter \<in> slots \<and> (1150 \<le> w \<or> isEditable config \<noteq> Some True)) \<and>
   (w < 1150 \<and> isEditable config = Some True
      \<longrightarrow> FooterRegion \<notin> set (layout_regions w config slots))"
  by (cases "isEditable config")
     (auto simp add: layout_regions_def showRenderedContent_def isLargeScreen_def
        truthy_opt_bool_def)

theorem rendered_region_shown_iff_witness:
  "(800::real) < 1150 \<and>
   isEditable \<lparr> isEditable = Some True, showSidebar = Some True \<rparr> = Some True \<and>
   FooterRegion \<notin> set (layout_regions 800 \<lparr> isEditable = Some True, showSidebar = Some True \<rparr>
                          {SlotFooter}) \<and>
   RenderedRegion \<notin> set (layout_regions 800 \<lparr> isEditable = Some True, showSidebar = Some True \<rparr>
                            {SlotFooter}) \<and>
   layout_regions 800 \<lparr> isEditable = Some True, showSidebar = Some True \<rparr> {SlotFooter}
     = [HeaderRegion, NavigationRegion, EditorRegion, ApiClientModalRegion]"
  using rendered_region_shown_iff
    [of 800 "\<lparr> isEditable = Some True, showSidebar = Some True \<rparr>" "{SlotFooter}"]
  by (simp add: layout_regions_def showRenderedContent_def isLargeScreen_def truthy_opt_bool_def)

section \<open>A scroll target without an offset\<close>

text \<open>
  C10. When the target of the event has no \<open>scrollTop\<close>, the offset defaults to 0: the
  handler does what it does for a scroll to the very top, and clears the fragment.
\<close>

theorem scroll_missing_offset_clears:
  "target v = Some t \<Longrightarrow> scrollTop t = None \<Longrightarrow>
     debouncedScroll v s = debouncedScroll (scroll_at 0) s \<and>
     debouncedScroll v s = Inr (clear_hash s) \<and> hash (clear_hash s) = []"
  by (simp add: debouncedScroll_def scroll_at_def nullish_or_def clear_hash_def)

theorem scroll_missing_offset_clears_witness:
  "target \<lparr> target = Some \<lparr> scrollTop = None \<rparr> \<rparr> = Some \<lparr> scrollTop = None \<rparr> \<and>
   scrollTop \<lparr> scrollTop = None \<rparr> = None \<and>
   debouncedScroll \<lparr> target = Some \<lparr> scrollTop = None \<rparr> \<rparr> (setup_state ''tag/pets'')
     = debouncedScroll (scroll_at 0) (setup_state ''tag/pets'') \<and>
   debouncedScroll \<lparr> target = Some \<lparr> scrollTop = None \<rparr> \<rparr> (setup_state ''tag/pets'')
     = Inr (clear_hash (setup_state ''tag/pets''))"
  using scroll_missing_offset_clears
    [of "\<lparr> target = Some \<lparr> scrollTop = None \<rparr> \<rparr>" "\<lparr> scrollTop = None \<rparr>"
        "setup_state ''tag/pets''"]
  by auto

end
